theory Spec2Isabelle
  imports Main "HOL-Library.Sublist"
begin

section \<open>Running an ECS task on EC2: placement constraints and strategies\<close>

text \<open>
  A shallow embedding of \<^verbatim>\<open>packages/@aws-cdk/aws-ecs/lib/ec2/ec2-run-task.ts\<close>:
  the class \<^verbatim>\<open>Ec2RunTask\<close>, its constructor, its four placement methods, its
  \<^verbatim>\<open>validate\<close> override and the helper \<^verbatim>\<open>validateNoNetworkingProps\<close>.
  Mutation of \<^verbatim>\<open>this\<close> is explicit state passing, a \<^verbatim>\<open>throw\<close> is the left
  summand of the result, and a \<^verbatim>\<open>for ... of\<close> loop is a primitive recursion over the
  argument list.
\<close>

subsection \<open>Data\<close>

text \<open>
  The object literals pushed onto \<^verbatim>\<open>this.constraints\<close>:
  \<^verbatim>\<open>{ Type: 'distinctInstance' }\<close> and \<^verbatim>\<open>{ Type: 'memberOf', expression }\<close>.
\<close>

datatype constraint = DistinctInstance | MemberOf string

text \<open>
  The object literals pushed onto \<^verbatim>\<open>this.strategies\<close>:
  \<^verbatim>\<open>{ Type: 'spread', Field: field }\<close>, \<^verbatim>\<open>{ Type: 'binpack', Field: resource }\<close> and
  \<^verbatim>\<open>{ Type: 'random' }\<close>.
\<close>

datatype strategy = Spread string | Binpack string | Random

text \<open>
  The enum \<^verbatim>\<open>BinPackResource\<close> is declared in \<^verbatim>\<open>./ec2-service\<close>; a member is
  represented by the string it stands for.
\<close>

type_synonym BinPackResource = string

text \<open>
  The values a parameter of the task can resolve to: \<^verbatim>\<open>undefined\<close> (the property is
  absent), a string, the array of constraints, or the array of strategies.
\<close>

datatype jsvalue =
  Undefined
| Str string
| ConstraintList "constraint list"
| StrategyList "strategy list"

text \<open>
  The comment in the constructor names the network modes: \<^verbatim>\<open>AwsVpc\<close> and
  ``either None, Bridge or Host''.
\<close>

datatype NetworkMode = NoneMode | Bridge | AwsVpc | Host

text \<open>
  Objects of other packages (a VPC, a security group, a subnet selection, a container
  definition, a compatibility setting) are only tested for presence or handed on by this
  file; each is represented by a name.
\<close>

record TaskDefinition =
  compatibility :: string
  defaultContainer :: "string option"
  networkMode :: NetworkMode

record ICluster =
  vpc :: string
  securityGroups :: "string list"
  hasEc2Capacity :: bool

text \<open>
  \<^verbatim>\<open>Ec2RunTaskProps\<close>: the three optional properties declared in the file, and the two
  properties of \<^verbatim>\<open>BaseRunTaskProps\<close> the constructor reads. An optional property
  that was not supplied is \<open>None\<close>.
\<close>

record Ec2RunTaskProps =
  taskDefinition :: TaskDefinition
  props_cluster :: ICluster
  vpcPlacement :: "string option"
  securityGroup :: "string option"
  placeOnDistinctInstances :: "bool option"

datatype error =
  NotEc2Compatible
    \<comment> \<open>\<^verbatim>\<open>Supplied TaskDefinition is not configured for compatibility with EC2\<close>\<close>
| NoEssentialContainer
    \<comment> \<open>\<^verbatim>\<open>A TaskDefinition must have at least one essential container\<close>\<close>
| NetworkingPropsOutsideAwsVpc
    \<comment> \<open>\<^verbatim>\<open>vpcPlacement and securityGroup can only be used in AwsVpc networking mode\<close>\<close>
| External string
    \<comment> \<open>an error thrown by code outside this file (the base class)\<close>

subsection \<open>Deferred values\<close>

text \<open>
  Modelled from the spec: the class \<^verbatim>\<open>cdk.Token\<close> of the package
  \<^verbatim>\<open>@aws-cdk/cdk\<close> is not part of the sources at hand. The specification (its
  DeferredValue, sections 3 and 4.1) describes a cell that holds a zero-argument resolver,
  a flag saying whether it has been resolved, and then the concrete value: the resolver is
  invoked at the first resolution, its result is cached, and every later resolution
  returns the cached value without invoking the resolver.

  The resolvers created in this file are closures over \<^verbatim>\<open>this\<close> that read the two
  arrays \<^verbatim>\<open>this.constraints\<close> and \<^verbatim>\<open>this.strategies\<close>, so a resolver is a function
  of the contents of these arrays at the moment it is invoked, and it returns a concrete
  value (chains of deferred values do not arise here). The value kept is a snapshot, as
  the specification asks (``a stable snapshot even if the underlying accumulator
  mutates''): lists are values here. The field \<open>invocations\<close> counts the calls of the
  resolver.
\<close>

record DeferredValue =
  resolver :: "constraint list \<Rightarrow> strategy list \<Rightarrow> jsvalue"
  cached :: "jsvalue option"
  invocations :: nat

text \<open>
  Modelled from the spec: \<^verbatim>\<open>new cdk.Token(f)\<close>, a deferred value that has not been
  resolved.
\<close>

definition Token :: "(constraint list \<Rightarrow> strategy list \<Rightarrow> jsvalue) \<Rightarrow> DeferredValue" where
  "Token f = \<lparr>resolver = f, cached = None, invocations = 0\<rparr>"

text \<open>
  Modelled from the spec: the resolution of a deferred value (section 4.1). It returns the
  value and the cell as it is afterwards.
\<close>

definition resolve ::
  "DeferredValue \<Rightarrow> constraint list \<Rightarrow> strategy list \<Rightarrow> jsvalue \<times> DeferredValue" where
  "resolve d cs ss =
     (case cached d of
        Some v \<Rightarrow> (v, d)
      | None \<Rightarrow>
          (let v = resolver d cs ss
           in (v, d\<lparr>cached := Some v, invocations := invocations d + 1\<rparr>)))"

text \<open>An entry of \<^verbatim>\<open>this._parameters\<close> is a plain value or a deferred one.\<close>

datatype param = Plain jsvalue | Deferred DeferredValue

subsection \<open>The object\<close>

text \<open>
  The fields of an \<^verbatim>\<open>Ec2RunTask\<close>: the three private fields of the class, the
  dictionary \<^verbatim>\<open>_parameters\<close> inherited from \<^verbatim>\<open>BaseRunTask\<close>, and the rest of the
  state of the base class (\<^verbatim>\<open>connections\<close>, the network configuration), whose
  declaration is not at hand and which is kept abstract as \<open>'b\<close>.
\<close>

record 'b Ec2RunTask =
  cluster :: ICluster
  constraints :: "constraint list"
  strategies :: "strategy list"
  parameters :: "string \<rightharpoonup> param"
  base :: 'b

text \<open>
  What the file imports and calls but does not define: \<^verbatim>\<open>isEc2Compatible\<close> of
  \<^verbatim>\<open>../util\<close>, the constructor of \<^verbatim>\<open>BaseRunTask\<close> (which yields the initial
  \<^verbatim>\<open>_parameters\<close> and the rest of the base state, or throws), the inherited
  \<^verbatim>\<open>configureAwsVpcNetworking\<close>, \<^verbatim>\<open>connections.addSecurityGroup\<close> and the inherited
  \<^verbatim>\<open>validate\<close>. They are parameters of the model. The two networking operations
  act on the base state; an exception of theirs is a message.
\<close>

record 'b collaborators =
  isEc2Compatible :: "string \<Rightarrow> bool"
  BaseRunTask_constructor ::
    "string \<Rightarrow> string \<Rightarrow> Ec2RunTaskProps \<Rightarrow> string + ((string \<rightharpoonup> param) \<times> 'b)"
  configureAwsVpcNetworking ::
    "string \<Rightarrow> bool \<Rightarrow> string option \<Rightarrow> string option \<Rightarrow> 'b \<Rightarrow> string + 'b"
  addSecurityGroup :: "string list \<Rightarrow> 'b \<Rightarrow> string + 'b"
  BaseRunTask_validate :: "'b Ec2RunTask \<Rightarrow> string list"

text \<open>
  Modelled from the spec: \<^verbatim>\<open>BuiltInAttributes.InstanceId\<close> is declared in
  \<^verbatim>\<open>./ec2-service\<close>, which is not at hand. The specification calls it the built-in
  ``unique instance identifier'' field, and the doc comment of \<^verbatim>\<open>placeSpreadAcross\<close>
  gives the default as \<^verbatim>\<open>attributes instanceId\<close>.
\<close>

definition BuiltInAttributes_InstanceId :: string where
  "BuiltInAttributes_InstanceId = ''instanceId''"

subsection \<open>The constructor\<close>

text \<open>\<^verbatim>\<open>x !== undefined\<close> on an optional property.\<close>

definition supplied :: "'a option \<Rightarrow> bool" where
  "supplied x = (case x of None \<Rightarrow> False | Some _ \<Rightarrow> True)"

definition validateNoNetworkingProps :: "Ec2RunTaskProps \<Rightarrow> error + unit" where
  "validateNoNetworkingProps props =
     (if supplied (vpcPlacement props) \<or> supplied (securityGroup props)
      then Inl NetworkingPropsOutsideAwsVpc
      else Inr ())"

text \<open>
  The two closures handed to \<^verbatim>\<open>new cdk.Token\<close> in the constructor:
  \<^verbatim>\<open>() => this.constraints.length > 0 ? this.constraints : undefined\<close> and
  \<^verbatim>\<open>() => this.constraints.length > 0 ? this.strategies : undefined\<close>.
\<close>

definition PlacementConstraints_resolver :: "constraint list \<Rightarrow> strategy list \<Rightarrow> jsvalue" where
  "PlacementConstraints_resolver cs ss =
     (if length cs > 0 then ConstraintList cs else Undefined)"

definition PlacementStrategy_resolver :: "constraint list \<Rightarrow> strategy list \<Rightarrow> jsvalue" where
  "PlacementStrategy_resolver cs ss =
     (if length cs > 0 then StrategyList ss else Undefined)"

text \<open>An exception of the base class, passed on.\<close>

definition rethrow :: "string + 'a \<Rightarrow> error + 'a" where
  "rethrow r = (case r of Inl msg \<Rightarrow> Inl (External msg) | Inr x \<Rightarrow> Inr x)"

text \<open>
  The constructor, statement by statement: the two checks, \<^verbatim>\<open>super(scope, id, props)\<close>,
  the three private fields, the three parameters, the networking branch, and the
  \<^verbatim>\<open>distinctInstance\<close> constraint.
\<close>

definition Ec2RunTask_constructor ::
  "'b collaborators \<Rightarrow> string \<Rightarrow> string \<Rightarrow> Ec2RunTaskProps \<Rightarrow> error + 'b Ec2RunTask" where
  "Ec2RunTask_constructor env scope ident props =
     (if \<not> isEc2Compatible env (compatibility (taskDefinition props)) then
        Inl NotEc2Compatible
      else if \<not> supplied (defaultContainer (taskDefinition props)) then
        Inl NoEssentialContainer
      else
        (case rethrow (BaseRunTask_constructor env scope ident props) of
           Inl e \<Rightarrow> Inl e
         | Inr (params, b) \<Rightarrow>
             (let this = \<lparr>cluster = props_cluster props,
                          constraints = [],
                          strategies = [],
                          parameters = params
                            (''LaunchType'' \<mapsto> Plain (Str ''EC2''),
                             ''PlacementConstraints'' \<mapsto>
                                Deferred (Token PlacementConstraints_resolver),
                             ''PlacementStrategy'' \<mapsto>
                                Deferred (Token PlacementStrategy_resolver)),
                          base = b\<rparr>
              in
                (case
                   (if networkMode (taskDefinition props) = AwsVpc then
                      rethrow (configureAwsVpcNetworking env (vpc (props_cluster props)) False
                                 (vpcPlacement props) (securityGroup props) (base this))
                    else
                      (case validateNoNetworkingProps props of
                         Inl e \<Rightarrow> Inl e
                       | Inr _ \<Rightarrow>
                           rethrow (addSecurityGroup env
                                      (securityGroups (props_cluster props)) (base this))))
                 of
                   Inl e \<Rightarrow> Inl e
                 | Inr b' \<Rightarrow>
                     (let this = this\<lparr>base := b'\<rparr>
                      in if placeOnDistinctInstances props = Some True then
                           Inr (this\<lparr>constraints := constraints this @ [DistinctInstance]\<rparr>)
                         else Inr this)))))"

subsection \<open>The placement methods\<close>

text \<open>\<^verbatim>\<open>for (const expression of expressions) this.constraints.push(...)\<close>\<close>

primrec placeOnMemberOf :: "string list \<Rightarrow> 'b Ec2RunTask \<Rightarrow> 'b Ec2RunTask" where
  "placeOnMemberOf [] this = this"
| "placeOnMemberOf (expression # expressions) this =
     placeOnMemberOf expressions
       (this\<lparr>constraints := constraints this @ [MemberOf expression]\<rparr>)"

text \<open>\<^verbatim>\<open>for (const field of fields) this.strategies.push(...)\<close>\<close>

text \<open>
  The argument is written \<open>flds\<close>: the name \<open>fields\<close> is taken by the record
  package.
\<close>

primrec push_spread :: "string list \<Rightarrow> 'b Ec2RunTask \<Rightarrow> 'b Ec2RunTask" where
  "push_spread [] this = this"
| "push_spread (field # flds) this =
     push_spread flds (this\<lparr>strategies := strategies this @ [Spread field]\<rparr>)"

definition placeSpreadAcross :: "string list \<Rightarrow> 'b Ec2RunTask \<Rightarrow> 'b Ec2RunTask" where
  "placeSpreadAcross flds this =
     (let flds = (if length flds = 0 then [BuiltInAttributes_InstanceId] else flds)
      in push_spread flds this)"

definition placePackedBy :: "BinPackResource \<Rightarrow> 'b Ec2RunTask \<Rightarrow> 'b Ec2RunTask" where
  "placePackedBy resource this = this\<lparr>strategies := strategies this @ [Binpack resource]\<rparr>"

definition placeRandomly :: "'b Ec2RunTask \<Rightarrow> 'b Ec2RunTask" where
  "placeRandomly this = this\<lparr>strategies := strategies this @ [Random]\<rparr>"

text \<open>A call of one of the four methods, and a sequence of calls in program order.\<close>

datatype call =
  PlaceOnMemberOf "string list"
| PlaceSpreadAcross "string list"
| PlacePackedBy BinPackResource
| PlaceRandomly

fun apply_call :: "call \<Rightarrow> 'b Ec2RunTask \<Rightarrow> 'b Ec2RunTask" where
  "apply_call (PlaceOnMemberOf expressions) this = placeOnMemberOf expressions this"
| "apply_call (PlaceSpreadAcross flds) this = placeSpreadAcross flds this"
| "apply_call (PlacePackedBy resource) this = placePackedBy resource this"
| "apply_call PlaceRandomly this = placeRandomly this"

primrec apply_calls :: "call list \<Rightarrow> 'b Ec2RunTask \<Rightarrow> 'b Ec2RunTask" where
  "apply_calls [] this = this"
| "apply_calls (c # calls) this = apply_calls calls (apply_call c this)"

subsection \<open>Validation\<close>

definition validate :: "'b collaborators \<Rightarrow> 'b Ec2RunTask \<Rightarrow> string list" where
  "validate env this =
     (let ret = BaseRunTask_validate env this
      in if \<not> hasEc2Capacity (cluster this) then
           ret @ [''Cluster for this service needs Ec2 capacity. Call addXxxCapacity() on the cluster.'']
         else ret)"

subsection \<open>Resolution of a parameter\<close>

text \<open>
  Modelled from the spec: the synthesis step that resolves the properties of a node
  (section 4.3, step 2) is not part of the sources at hand. Here it is the resolution of
  the entry \<open>key\<close> of \<^verbatim>\<open>_parameters\<close>: a plain value is
  itself, a deferred value is resolved against the arrays as they are now (and keeps its
  result), a missing entry is \<^verbatim>\<open>undefined\<close>.
\<close>

definition resolveParameter :: "string \<Rightarrow> 'b Ec2RunTask \<Rightarrow> jsvalue \<times> 'b Ec2RunTask" where
  "resolveParameter key this =
     (case parameters this key of
        None \<Rightarrow> (Undefined, this)
      | Some (Plain v) \<Rightarrow> (v, this)
      | Some (Deferred d) \<Rightarrow>
          (case resolve d (constraints this) (strategies this) of
             (v, d') \<Rightarrow> (v, this\<lparr>parameters := (parameters this)(key \<mapsto> Deferred d')\<rparr>)))"

text \<open>
  How often the resolver of the deferred entry \<open>key\<close> has been invoked so far
  (0 for a plain or a missing entry).
\<close>

definition resolver_calls :: "string \<Rightarrow> 'b Ec2RunTask \<Rightarrow> nat" where
  "resolver_calls key this =
     (case parameters this key of Some (Deferred d) \<Rightarrow> invocations d | _ \<Rightarrow> 0)"

subsection \<open>A sample environment\<close>

text \<open>
  Collaborators that always succeed and leave the base state (here of type \<open>unit\<close>)
  alone, a cluster with and without capacity, and properties for a task definition in
  bridge mode and in \<^verbatim>\<open>AwsVpc\<close> mode. They serve to run the definitions.
\<close>

definition sample_env :: "unit collaborators" where
  "sample_env =
     \<lparr>isEc2Compatible = (\<lambda>c. c = ''EC2''),
      BaseRunTask_constructor = (\<lambda>scope ident props. Inr (Map.empty, ())),
      configureAwsVpcNetworking = (\<lambda>v assignPublicIp placement sg b. Inr b),
      addSecurityGroup = (\<lambda>sgs b. Inr b),
      BaseRunTask_validate = (\<lambda>this. [])\<rparr>"

definition sample_cluster :: "bool \<Rightarrow> ICluster" where
  "sample_cluster capacity =
     \<lparr>vpc = ''Vpc'', securityGroups = [''sg-asg''], hasEc2Capacity = capacity\<rparr>"

definition sample_taskdef :: "string \<Rightarrow> string option \<Rightarrow> NetworkMode \<Rightarrow> TaskDefinition" where
  "sample_taskdef c container mode =
     \<lparr>compatibility = c, defaultContainer = container, networkMode = mode\<rparr>"

definition sample_props :: "NetworkMode \<Rightarrow> bool option \<Rightarrow> Ec2RunTaskProps" where
  "sample_props mode pdi =
     \<lparr>taskDefinition = sample_taskdef ''EC2'' (Some ''web'') mode,
      props_cluster = sample_cluster True,
      vpcPlacement = None,
      securityGroup = None,
      placeOnDistinctInstances = pdi\<rparr>"

text \<open>The task constructed from the sample properties.\<close>

definition sample_task :: "bool option \<Rightarrow> unit Ec2RunTask" where
  "sample_task pdi =
     \<lparr>cluster = sample_cluster True,
      constraints = (if pdi = Some True then [DistinctInstance] else []),
      strategies = [],
      parameters = Map.empty
        (''LaunchType'' \<mapsto> Plain (Str ''EC2''),
         ''PlacementConstraints'' \<mapsto> Deferred (Token PlacementConstraints_resolver),
         ''PlacementStrategy'' \<mapsto> Deferred (Token PlacementStrategy_resolver)),
      base = ()\<rparr>"

text \<open>
  Variants of the sample properties: a task definition that is not compatible with EC2, one
  without a default container, a cluster without capacity, and both networking properties
  supplied.
\<close>

definition sample_fargate_props :: Ec2RunTaskProps where
  "sample_fargate_props =
     (sample_props AwsVpc None)\<lparr>taskDefinition := sample_taskdef ''FARGATE'' (Some ''web'') AwsVpc\<rparr>"

definition sample_empty_props :: Ec2RunTaskProps where
  "sample_empty_props =
     (sample_props Bridge None)\<lparr>taskDefinition := sample_taskdef ''EC2'' None Bridge\<rparr>"

definition sample_props_no_capacity :: Ec2RunTaskProps where
  "sample_props_no_capacity = (sample_props Bridge None)\<lparr>props_cluster := sample_cluster False\<rparr>"

definition sample_props_networking :: "NetworkMode \<Rightarrow> Ec2RunTaskProps" where
  "sample_props_networking mode =
     (sample_props mode None)\<lparr>vpcPlacement := Some ''Public'', securityGroup := Some ''sg-task''\<rparr>"

section \<open>Properties\<close>

subsection \<open>What each method changes\<close>

lemma placeOnMemberOf_fields:
  "constraints (placeOnMemberOf es t) = constraints t @ map MemberOf es"
  "strategies (placeOnMemberOf es t) = strategies t"
  "parameters (placeOnMemberOf es t) = parameters t"
  "cluster (placeOnMemberOf es t) = cluster t"
  "base (placeOnMemberOf es t) = base t"
  by (induction es arbitrary: t) simp_all

lemma push_spread_fields:
  "strategies (push_spread fs t) = strategies t @ map Spread fs"
  "constraints (push_spread fs t) = constraints t"
  "parameters (push_spread fs t) = parameters t"
  "cluster (push_spread fs t) = cluster t"
  "base (push_spread fs t) = base t"
  by (induction fs arbitrary: t) simp_all

lemma placeSpreadAcross_fields:
  "strategies (placeSpreadAcross fs t) =
     strategies t @ (if fs = [] then [Spread BuiltInAttributes_InstanceId] else map Spread fs)"
  "constraints (placeSpreadAcross fs t) = constraints t"
  "parameters (placeSpreadAcross fs t) = parameters t"
  "cluster (placeSpreadAcross fs t) = cluster t"
  "base (placeSpreadAcross fs t) = base t"
  by (simp_all add: placeSpreadAcross_def push_spread_fields)

lemma apply_call_frame:
  "parameters (apply_call c t) = parameters t"
  "cluster (apply_call c t) = cluster t"
  "base (apply_call c t) = base t"
  by (cases c; simp add: placeOnMemberOf_fields placeSpreadAcross_fields placePackedBy_def
        placeRandomly_def)+

lemma apply_calls_frame:
  "parameters (apply_calls cs t) = parameters t"
  "cluster (apply_calls cs t) = cluster t"
  "base (apply_calls cs t) = base t"
  by (induction cs arbitrary: t) (simp_all add: apply_call_frame)

text \<open>Both arrays only grow: what was there stays, in place, as a prefix.\<close>

lemma apply_call_prefix:
  "prefix (constraints t) (constraints (apply_call c t))"
  "prefix (strategies t) (strategies (apply_call c t))"
  by (cases c; simp add: placeOnMemberOf_fields placeSpreadAcross_fields placePackedBy_def
        placeRandomly_def)+

lemma apply_calls_prefix_constraints:
  "prefix (constraints t) (constraints (apply_calls cs t))"
proof (induction cs arbitrary: t)
  case Nil
  show ?case by simp
next
  case (Cons c cs)
  have "prefix (constraints t) (constraints (apply_call c t))"
    by (rule apply_call_prefix)
  also have "prefix \<dots> (constraints (apply_calls cs (apply_call c t)))"
    by (rule Cons.IH)
  finally show ?case by simp
qed

lemma apply_calls_prefix_strategies:
  "prefix (strategies t) (strategies (apply_calls cs t))"
proof (induction cs arbitrary: t)
  case Nil
  show ?case by simp
next
  case (Cons c cs)
  have "prefix (strategies t) (strategies (apply_call c t))"
    by (rule apply_call_prefix)
  also have "prefix \<dots> (strategies (apply_calls cs (apply_call c t)))"
    by (rule Cons.IH)
  finally show ?case by simp
qed

subsection \<open>The object a successful construction yields\<close>

lemma constructor_Inr:
  assumes "Ec2RunTask_constructor env scope ident props = Inr t"
  shows "cluster t = props_cluster props"
    and "constraints t =
           (if placeOnDistinctInstances props = Some True then [DistinctInstance] else [])"
    and "strategies t = []"
    and "parameters t ''LaunchType'' = Some (Plain (Str ''EC2''))"
    and "parameters t ''PlacementConstraints''
           = Some (Deferred (Token PlacementConstraints_resolver))"
    and "parameters t ''PlacementStrategy''
           = Some (Deferred (Token PlacementStrategy_resolver))"
  using assms
  by (auto simp: Ec2RunTask_constructor_def Let_def split: if_splits sum.splits prod.splits)

lemma sample_constructed:
  "Ec2RunTask_constructor sample_env scope ident (sample_props mode pdi) = Inr (sample_task pdi)"
  by (simp add: Ec2RunTask_constructor_def sample_env_def sample_props_def sample_taskdef_def
      sample_task_def sample_cluster_def supplied_def rethrow_def validateNoNetworkingProps_def
      Let_def)

lemma sample_no_capacity_constructed:
  "Ec2RunTask_constructor sample_env scope ident sample_props_no_capacity
     = Inr ((sample_task None)\<lparr>cluster := sample_cluster False\<rparr>)"
  by (simp add: Ec2RunTask_constructor_def sample_env_def sample_props_def sample_taskdef_def
      sample_task_def sample_cluster_def supplied_def rethrow_def validateNoNetworkingProps_def
      Let_def sample_props_no_capacity_def)

subsection \<open>Resolution\<close>

lemma resolve_Token:
  "resolve (Token f) cs ss
     = (f cs ss, \<lparr>resolver = f, cached = Some (f cs ss), invocations = 1\<rparr>)"
  by (simp add: resolve_def Token_def Let_def)

lemma resolveParameter_fresh:
  "parameters t key = Some (Deferred (Token f)) \<Longrightarrow>
   fst (resolveParameter key t) = f (constraints t) (strategies t)"
  by (simp add: resolveParameter_def resolve_Token)

lemma resolveParameter_frame:
  "constraints (snd (resolveParameter key t)) = constraints t"
  "strategies (snd (resolveParameter key t)) = strategies t"
  "cluster (snd (resolveParameter key t)) = cluster t"
  "base (snd (resolveParameter key t)) = base t"
  by (simp_all add: resolveParameter_def split: option.splits param.splits prod.splits)

lemma resolveParameter_other:
  "key' \<noteq> key \<Longrightarrow> parameters (snd (resolveParameter key t)) key' = parameters t key'"
  by (simp add: resolveParameter_def split: option.splits param.splits prod.splits)

lemma resolveParameter_Plain:
  "parameters t key = Some (Plain v) \<Longrightarrow> resolveParameter key t = (v, t)"
  by (simp add: resolveParameter_def)

lemma resolveParameter_None:
  "parameters t key = None \<Longrightarrow> resolveParameter key t = (Undefined, t)"
  by (simp add: resolveParameter_def)

lemma resolveParameter_Deferred:
  "parameters t key = Some (Deferred d) \<Longrightarrow>
   resolveParameter key t
     = (fst (resolve d (constraints t) (strategies t)),
        t\<lparr>parameters := (parameters t)
             (key \<mapsto> Deferred (snd (resolve d (constraints t) (strategies t))))\<rparr>)"
  by (simp add: resolveParameter_def split: prod.splits)

text \<open>A second resolution returns what the first returned and changes nothing.\<close>

lemma resolve_again:
  "resolve (snd (resolve d cs ss)) cs' ss' = (fst (resolve d cs ss), snd (resolve d cs ss))"
  by (cases "cached d") (simp_all add: resolve_def Let_def)

lemma resolveParameter_again:
  "fst (resolveParameter key (apply_calls calls (snd (resolveParameter key t))))
     = fst (resolveParameter key t)"
  "parameters (snd (resolveParameter key (apply_calls calls (snd (resolveParameter key t)))))
     = parameters (snd (resolveParameter key t))"
proof -
  let ?t1 = "snd (resolveParameter key t)"
  let ?t2 = "apply_calls calls ?t1"
  have p: "parameters ?t2 = parameters ?t1" by (simp add: apply_calls_frame)
  have "fst (resolveParameter key ?t2) = fst (resolveParameter key t)
        \<and> parameters (snd (resolveParameter key ?t2)) = parameters ?t1"
  proof (cases "parameters t key")
    case None
    then have "parameters ?t2 key = None"
      by (simp add: apply_calls_frame resolveParameter_None)
    with None show ?thesis
      by (simp add: resolveParameter_None apply_calls_frame)
  next
    case (Some x)
    show ?thesis
    proof (cases x)
      case (Plain v)
      with Some have a: "parameters t key = Some (Plain v)" by simp
      then have "parameters ?t2 key = Some (Plain v)"
        by (simp add: apply_calls_frame resolveParameter_Plain)
      with a show ?thesis
        by (simp add: resolveParameter_Plain apply_calls_frame)
    next
      case (Deferred d)
      let ?d1 = "snd (resolve d (constraints t) (strategies t))"
      from Some Deferred have a: "parameters t key = Some (Deferred d)" by simp
      then have b: "parameters ?t2 key = Some (Deferred ?d1)"
        by (simp add: apply_calls_frame resolveParameter_Deferred)
      have c: "(parameters ?t2)(key \<mapsto> Deferred ?d1) = parameters ?t2"
        using b by (rule map_upd_triv)
      show ?thesis
        by (simp add: resolveParameter_Deferred [OF b] resolve_again c p)
           (simp add: resolveParameter_Deferred [OF a])
    qed
  qed
  then show "fst (resolveParameter key ?t2) = fst (resolveParameter key t)"
    and "parameters (snd (resolveParameter key ?t2)) = parameters ?t1"
    by simp_all
qed

text \<open>
  What the two deferred parameters resolve to after any sequence of placement calls: each
  resolver is evaluated on the arrays as they are at resolution.
\<close>

lemma resolved_after_calls:
  assumes "Ec2RunTask_constructor env scope ident props = Inr t"
  shows "fst (resolveParameter ''PlacementConstraints'' (apply_calls calls t))
           = (if constraints (apply_calls calls t) = [] then Undefined
              else ConstraintList (constraints (apply_calls calls t)))"
    and "fst (resolveParameter ''PlacementStrategy'' (apply_calls calls t))
           = (if constraints (apply_calls calls t) = [] then Undefined
              else StrategyList (strategies (apply_calls calls t)))"
  using constructor_Inr(5,6) [OF assms]
  by (simp_all add: resolveParameter_fresh apply_calls_frame PlacementConstraints_resolver_def
        PlacementStrategy_resolver_def)

subsection \<open>Validation\<close>

lemma validate_eq:
  "validate env this =
     (if hasEc2Capacity (cluster this) then BaseRunTask_validate env this
      else BaseRunTask_validate env this @
        [''Cluster for this service needs Ec2 capacity. Call addXxxCapacity() on the cluster.''])"
  by (simp add: validate_def Let_def)

section \<open>The claims\<close>

text \<open>
  C1. The claim: \<^verbatim>\<open>PlacementStrategy\<close> resolves to the accumulated list of strategies
  whenever that list is non-empty, whatever the number of constraints, and to
  \<^verbatim>\<open>undefined\<close> when it is empty; after a single \<^verbatim>\<open>placeSpreadAcross()\<close> and no
  constraint it is a one-entry list.

  The code tests \<^verbatim>\<open>this.constraints.length\<close> in the resolver of
  \<^verbatim>\<open>PlacementStrategy\<close>. Evaluated on the sample task: constructed without
  \<^verbatim>\<open>placeOnDistinctInstances\<close> and followed by \<^verbatim>\<open>placeSpreadAcross()\<close>, the array of
  strategies holds the one spread entry and \<^verbatim>\<open>PlacementStrategy\<close> resolves to
  \<^verbatim>\<open>undefined\<close>; constructed with \<^verbatim>\<open>placeOnDistinctInstances: true\<close> and no strategy,
  \<^verbatim>\<open>PlacementStrategy\<close> resolves to the empty list.
\<close>

theorem PlacementStrategy_tests_constraints_length:
  "Ec2RunTask_constructor sample_env ''Stack'' ''RunEc2'' (sample_props Bridge None)
     = Inr (sample_task None)
   \<and> strategies (placeSpreadAcross [] (sample_task None)) = [Spread BuiltInAttributes_InstanceId]
   \<and> fst (resolveParameter ''PlacementStrategy'' (placeSpreadAcross [] (sample_task None)))
       = Undefined
   \<and> Ec2RunTask_constructor sample_env ''Stack'' ''RunEc2'' (sample_props Bridge (Some True))
     = Inr (sample_task (Some True))
   \<and> strategies (sample_task (Some True)) = []
   \<and> fst (resolveParameter ''PlacementStrategy'' (sample_task (Some True))) = StrategyList []"
proof -
  let ?t = "placeSpreadAcross [] (sample_task None)"
  have p: "parameters ?t ''PlacementStrategy''
             = Some (Deferred (Token PlacementStrategy_resolver))"
    by (simp add: placeSpreadAcross_fields sample_task_def)
  have c: "constraints ?t = []"
    by (simp add: placeSpreadAcross_fields sample_task_def)
  have s: "strategies ?t = [Spread BuiltInAttributes_InstanceId]"
    by (simp add: placeSpreadAcross_fields sample_task_def)
  have r: "fst (resolveParameter ''PlacementStrategy'' ?t) = Undefined"
    by (simp add: resolveParameter_fresh [OF p] PlacementStrategy_resolver_def c)
  let ?u = "sample_task (Some True)"
  have p': "parameters ?u ''PlacementStrategy''
             = Some (Deferred (Token PlacementStrategy_resolver))"
    by (simp add: sample_task_def)
  have c': "constraints ?u = [DistinctInstance]" and s': "strategies ?u = []"
    by (simp_all add: sample_task_def)
  have r': "fst (resolveParameter ''PlacementStrategy'' ?u) = StrategyList []"
    by (simp add: resolveParameter_fresh [OF p'] PlacementStrategy_resolver_def c' s')
  from s r s' r' show ?thesis by (simp add: sample_constructed)
qed

text \<open>
  C2. A task constructed with \<^verbatim>\<open>placeOnDistinctInstances\<close> unset or false, on which no
  placement method was called, resolves both \<^verbatim>\<open>PlacementConstraints\<close> and
  \<^verbatim>\<open>PlacementStrategy\<close> to \<^verbatim>\<open>undefined\<close> (whether each is resolved on its own or one
  after the other), and to no empty list.
\<close>

theorem no_placement_resolves_to_undefined:
  assumes "Ec2RunTask_constructor env scope ident props = Inr t"
      and "placeOnDistinctInstances props \<noteq> Some True"
  shows "fst (resolveParameter ''PlacementConstraints'' t) = Undefined
       \<and> fst (resolveParameter ''PlacementStrategy'' t) = Undefined
       \<and> fst (resolveParameter ''PlacementStrategy''
                (snd (resolveParameter ''PlacementConstraints'' t))) = Undefined
       \<and> fst (resolveParameter ''PlacementConstraints'' t) \<noteq> ConstraintList []
       \<and> fst (resolveParameter ''PlacementStrategy'' t) \<noteq> StrategyList []"
proof -
  note c = constructor_Inr [OF assms(1)]
  have cs: "constraints t = []" using c(2) assms(2) by simp
  have 1: "fst (resolveParameter ''PlacementConstraints'' t) = Undefined"
    by (simp add: resolveParameter_fresh [OF c(5)] PlacementConstraints_resolver_def cs)
  have 2: "fst (resolveParameter ''PlacementStrategy'' t) = Undefined"
    by (simp add: resolveParameter_fresh [OF c(6)] PlacementStrategy_resolver_def cs)
  let ?t = "snd (resolveParameter ''PlacementConstraints'' t)"
  have "parameters ?t ''PlacementStrategy'' = Some (Deferred (Token PlacementStrategy_resolver))"
    using c(6) by (simp add: resolveParameter_other)
  then have 3: "fst (resolveParameter ''PlacementStrategy'' ?t) = Undefined"
    by (simp add: resolveParameter_fresh PlacementStrategy_resolver_def resolveParameter_frame cs)
  from 1 2 3 show ?thesis by simp
qed

theorem no_placement_resolves_to_undefined_witness:
  "Ec2RunTask_constructor sample_env ''Stack'' ''RunEc2'' (sample_props Bridge (Some False))
     = Inr (sample_task (Some False))
   \<and> placeOnDistinctInstances (sample_props Bridge (Some False)) \<noteq> Some True
   \<and> fst (resolveParameter ''PlacementConstraints'' (sample_task (Some False))) = Undefined
   \<and> fst (resolveParameter ''PlacementStrategy'' (sample_task (Some False))) = Undefined"
proof -
  have h1: "Ec2RunTask_constructor sample_env ''Stack'' ''RunEc2''
              (sample_props Bridge (Some False)) = Inr (sample_task (Some False))"
    by (rule sample_constructed)
  have h2: "placeOnDistinctInstances (sample_props Bridge (Some False)) \<noteq> Some True"
    by (simp add: sample_props_def)
  show ?thesis using no_placement_resolves_to_undefined [OF h1 h2] h1 h2 by simp
qed

text \<open>
  C3. On a task constructed with no \<^verbatim>\<open>distinctInstance\<close> constraint,
  \<^verbatim>\<open>placeOnMemberOf(a)\<close> followed by \<^verbatim>\<open>placeOnMemberOf(b)\<close>, and likewise the single
  call \<^verbatim>\<open>placeOnMemberOf(a, b)\<close>, make \<^verbatim>\<open>PlacementConstraints\<close> resolve to the list of
  the two \<^verbatim>\<open>memberOf\<close> entries, \<open>a\<close> first. In general, on a task in any state
  reached by placement calls, \<^verbatim>\<open>placeOnMemberOf\<close> appends one \<^verbatim>\<open>memberOf\<close> entry
  for each expression, in the order of the arguments.
\<close>

theorem placeOnMemberOf_resolves_in_order:
  assumes "Ec2RunTask_constructor env scope ident props = Inr t"
      and "placeOnDistinctInstances props \<noteq> Some True"
  shows "fst (resolveParameter ''PlacementConstraints''
                (placeOnMemberOf [b] (placeOnMemberOf [a] t)))
           = ConstraintList [MemberOf a, MemberOf b]
       \<and> fst (resolveParameter ''PlacementConstraints'' (placeOnMemberOf [a, b] t))
           = ConstraintList [MemberOf a, MemberOf b]
       \<and> constraints (placeOnMemberOf expressions (apply_calls calls t))
           = constraints (apply_calls calls t) @ map MemberOf expressions"
proof -
  note c = constructor_Inr [OF assms(1)]
  have cs: "constraints t = []" using c(2) assms(2) by simp
  have r: "fst (resolveParameter ''PlacementConstraints'' u)
             = PlacementConstraints_resolver (constraints u) (strategies u)"
    if "parameters u = parameters t" for u :: "'a Ec2RunTask"
    using that c(5) by (simp add: resolveParameter_fresh)
  have 1: "fst (resolveParameter ''PlacementConstraints''
                  (placeOnMemberOf [b] (placeOnMemberOf [a] t)))
             = ConstraintList [MemberOf a, MemberOf b]"
    by (subst r) (simp_all add: placeOnMemberOf_fields PlacementConstraints_resolver_def cs
          del: placeOnMemberOf.simps)
  have 2: "fst (resolveParameter ''PlacementConstraints'' (placeOnMemberOf [a, b] t))
             = ConstraintList [MemberOf a, MemberOf b]"
    by (subst r) (simp_all add: placeOnMemberOf_fields PlacementConstraints_resolver_def cs
          del: placeOnMemberOf.simps)
  from 1 2 show ?thesis by (simp add: placeOnMemberOf_fields del: placeOnMemberOf.simps)
qed

theorem placeOnMemberOf_resolves_in_order_witness:
  "Ec2RunTask_constructor sample_env ''Stack'' ''RunEc2'' (sample_props Bridge None)
     = Inr (sample_task None)
   \<and> placeOnDistinctInstances (sample_props Bridge None) \<noteq> Some True
   \<and> fst (resolveParameter ''PlacementConstraints''
            (placeOnMemberOf [''b''] (placeOnMemberOf [''a''] (sample_task None))))
       = ConstraintList [MemberOf ''a'', MemberOf ''b'']
   \<and> fst (resolveParameter ''PlacementConstraints''
            (placeOnMemberOf [''a'', ''b''] (sample_task None)))
       = ConstraintList [MemberOf ''a'', MemberOf ''b'']"
proof -
  have h1: "Ec2RunTask_constructor sample_env ''Stack'' ''RunEc2'' (sample_props Bridge None)
     = Inr (sample_task None)" by (rule sample_constructed)
  have h2: "placeOnDistinctInstances (sample_props Bridge None) \<noteq> Some True"
    by (simp add: sample_props_def)
  show ?thesis
    using placeOnMemberOf_resolves_in_order [OF h1 h2, of "''b''" "''a''"] h1 h2 by simp
qed

text \<open>
  C4. \<^verbatim>\<open>placeSpreadAcross\<close> with one or more fields appends one \<^verbatim>\<open>spread\<close> entry for
  each field, in the order of the arguments (so as many entries as fields); with no field
  it appends the single entry whose \<^verbatim>\<open>Field\<close> is \<^verbatim>\<open>BuiltInAttributes.InstanceId\<close>.
  The constraints are left as they are.
\<close>

theorem placeSpreadAcross_appends:
  "strategies (placeSpreadAcross (f # fs) t) = strategies t @ map Spread (f # fs)
   \<and> length (strategies (placeSpreadAcross (f # fs) t))
       = length (strategies t) + length (f # fs)
   \<and> strategies (placeSpreadAcross [] t) = strategies t @ [Spread BuiltInAttributes_InstanceId]
   \<and> constraints (placeSpreadAcross fs' t) = constraints t"
  by (simp add: placeSpreadAcross_fields)

text \<open>
  C5. When the task definition is not compatible with EC2, or has no default container,
  the constructor throws: the first error in the first case, the second otherwise. The
  result is the same whatever the constructor of the base class would do, since the checks
  come before \<^verbatim>\<open>super(scope, id, props)\<close> and before any field is assigned; the
  error is the outcome of the construction, not an entry of the list \<^verbatim>\<open>validate\<close>
  returns.
\<close>

theorem constructor_rejects_unsuitable_taskDefinition:
  assumes "\<not> isEc2Compatible env (compatibility (taskDefinition props))
           \<or> defaultContainer (taskDefinition props) = None"
  shows "Ec2RunTask_constructor env scope ident props
           = (if \<not> isEc2Compatible env (compatibility (taskDefinition props))
              then Inl NotEc2Compatible else Inl NoEssentialContainer)
       \<and> Ec2RunTask_constructor (env\<lparr>BaseRunTask_constructor := other\<rparr>) scope ident props
           = Ec2RunTask_constructor env scope ident props"
  using assms by (auto simp: Ec2RunTask_constructor_def supplied_def)

theorem constructor_rejects_unsuitable_taskDefinition_witness:
  "\<not> isEc2Compatible sample_env (compatibility (taskDefinition sample_fargate_props))
   \<and> Ec2RunTask_constructor sample_env ''Stack'' ''RunEc2'' sample_fargate_props
       = Inl NotEc2Compatible
   \<and> isEc2Compatible sample_env (compatibility (taskDefinition sample_empty_props))
   \<and> defaultContainer (taskDefinition sample_empty_props) = None
   \<and> Ec2RunTask_constructor sample_env ''Stack'' ''RunEc2'' sample_empty_props
       = Inl NoEssentialContainer"
proof -
  have h1: "\<not> isEc2Compatible sample_env (compatibility (taskDefinition sample_fargate_props))"
    by (simp add: sample_env_def sample_fargate_props_def sample_taskdef_def)
  have h2: "isEc2Compatible sample_env (compatibility (taskDefinition sample_empty_props))"
    and h3: "defaultContainer (taskDefinition sample_empty_props) = None"
    by (simp_all add: sample_env_def sample_empty_props_def sample_taskdef_def)
  from h1 have a: "\<not> isEc2Compatible sample_env (compatibility (taskDefinition sample_fargate_props))
           \<or> defaultContainer (taskDefinition sample_fargate_props) = None" by simp
  from h3 have b: "\<not> isEc2Compatible sample_env (compatibility (taskDefinition sample_empty_props))
           \<or> defaultContainer (taskDefinition sample_empty_props) = None" by simp
  show ?thesis
    using constructor_rejects_unsuitable_taskDefinition [OF a, of "''Stack''" "''RunEc2''"]
          constructor_rejects_unsuitable_taskDefinition [OF b, of "''Stack''" "''RunEc2''"]
          h1 h2 h3
    by simp
qed

text \<open>
  C6. For a constructed task, after any placement calls: when the cluster of the properties
  has no EC2 capacity, \<^verbatim>\<open>validate\<close> returns the errors of the base class followed by
  the message about capacity; when it has, \<^verbatim>\<open>validate\<close> returns the errors of the
  base class and nothing else. The constructor does not look at the capacity: the same
  properties with the capacity taken away construct as well, provided the constructor of
  the base class treats them alike.
\<close>

theorem validate_reports_missing_capacity:
  assumes "Ec2RunTask_constructor env scope ident props = Inr t"
  shows "(\<not> hasEc2Capacity (props_cluster props) \<longrightarrow>
            validate env (apply_calls calls t)
              = BaseRunTask_validate env (apply_calls calls t) @
                  [''Cluster for this service needs Ec2 capacity. Call addXxxCapacity() on the cluster.'']
          \<and> ''Cluster for this service needs Ec2 capacity. Call addXxxCapacity() on the cluster.''
               \<in> set (validate env (apply_calls calls t)))
       \<and> (hasEc2Capacity (props_cluster props) \<longrightarrow>
            validate env (apply_calls calls t) = BaseRunTask_validate env (apply_calls calls t))
       \<and> (BaseRunTask_constructor env scope ident
              (props\<lparr>props_cluster := (props_cluster props)\<lparr>hasEc2Capacity := False\<rparr>\<rparr>)
            = BaseRunTask_constructor env scope ident props \<longrightarrow>
          \<not> isl (Ec2RunTask_constructor env scope ident
              (props\<lparr>props_cluster := (props_cluster props)\<lparr>hasEc2Capacity := False\<rparr>\<rparr>)))"
proof -
  have "\<not> isl (Ec2RunTask_constructor env scope ident
              (props\<lparr>props_cluster := (props_cluster props)\<lparr>hasEc2Capacity := False\<rparr>\<rparr>))"
    if "BaseRunTask_constructor env scope ident
              (props\<lparr>props_cluster := (props_cluster props)\<lparr>hasEc2Capacity := False\<rparr>\<rparr>)
            = BaseRunTask_constructor env scope ident props"
    using assms that
    by (auto simp: Ec2RunTask_constructor_def Let_def validateNoNetworkingProps_def
          split: if_splits sum.splits prod.splits)
  then show ?thesis
    using constructor_Inr(1) [OF assms] by (simp add: validate_eq apply_calls_frame)
qed

theorem validate_reports_missing_capacity_witness:
  "Ec2RunTask_constructor sample_env ''Stack'' ''RunEc2'' sample_props_no_capacity
     = Inr ((sample_task None)\<lparr>cluster := sample_cluster False\<rparr>)
   \<and> \<not> hasEc2Capacity (props_cluster sample_props_no_capacity)
   \<and> validate sample_env ((sample_task None)\<lparr>cluster := sample_cluster False\<rparr>)
       = [''Cluster for this service needs Ec2 capacity. Call addXxxCapacity() on the cluster.'']
   \<and> Ec2RunTask_constructor sample_env ''Stack'' ''RunEc2'' (sample_props Bridge None)
     = Inr (sample_task None)
   \<and> hasEc2Capacity (props_cluster (sample_props Bridge None))
   \<and> validate sample_env (sample_task None) = []"
proof -
  have h1: "Ec2RunTask_constructor sample_env ''Stack'' ''RunEc2'' sample_props_no_capacity
     = Inr ((sample_task None)\<lparr>cluster := sample_cluster False\<rparr>)"
    by (rule sample_no_capacity_constructed)
  have h2: "\<not> hasEc2Capacity (props_cluster sample_props_no_capacity)"
    by (simp add: sample_props_no_capacity_def sample_cluster_def)
  have h3: "Ec2RunTask_constructor sample_env ''Stack'' ''RunEc2'' (sample_props Bridge None)
     = Inr (sample_task None)" by (rule sample_constructed)
  have h4: "hasEc2Capacity (props_cluster (sample_props Bridge None))"
    by (simp add: sample_props_def sample_cluster_def)
  have b: "BaseRunTask_validate sample_env u = []" for u
    by (simp add: sample_env_def)
  show ?thesis
    using validate_reports_missing_capacity [OF h1, of "[]"]
          validate_reports_missing_capacity [OF h3, of "[]"] h1 h2 h3 h4
    by (simp add: b)
qed

text \<open>
  C7. The constructor throws the error about \<^verbatim>\<open>vpcPlacement\<close> and
  \<^verbatim>\<open>securityGroup\<close> exactly when the earlier steps pass (compatible, default
  container, base constructor), the network mode is not \<^verbatim>\<open>AwsVpc\<close>, and one of the two
  properties is supplied. So in another mode than \<^verbatim>\<open>AwsVpc\<close> a supplied
  \<^verbatim>\<open>vpcPlacement\<close> or \<^verbatim>\<open>securityGroup\<close> always makes the construction fail, and
  in \<^verbatim>\<open>AwsVpc\<close> mode that error never occurs: the construction succeeds whenever the
  earlier steps and \<^verbatim>\<open>configureAwsVpcNetworking\<close> do.
\<close>

theorem networking_props_need_AwsVpc:
  "(Ec2RunTask_constructor env scope ident props = Inl NetworkingPropsOutsideAwsVpc)
     = (isEc2Compatible env (compatibility (taskDefinition props))
        \<and> defaultContainer (taskDefinition props) \<noteq> None
        \<and> \<not> isl (BaseRunTask_constructor env scope ident props)
        \<and> networkMode (taskDefinition props) \<noteq> AwsVpc
        \<and> (vpcPlacement props \<noteq> None \<or> securityGroup props \<noteq> None))
   \<and> (networkMode (taskDefinition props) \<noteq> AwsVpc
        \<and> (vpcPlacement props \<noteq> None \<or> securityGroup props \<noteq> None)
      \<longrightarrow> isl (Ec2RunTask_constructor env scope ident props))
   \<and> (networkMode (taskDefinition props) = AwsVpc
        \<and> isEc2Compatible env (compatibility (taskDefinition props))
        \<and> defaultContainer (taskDefinition props) \<noteq> None
        \<and> BaseRunTask_constructor env scope ident props = Inr (ps, b)
        \<and> \<not> isl (configureAwsVpcNetworking env (vpc (props_cluster props)) False
                    (vpcPlacement props) (securityGroup props) b)
      \<longrightarrow> \<not> isl (Ec2RunTask_constructor env scope ident props))"
proof -
  have 1: "(Ec2RunTask_constructor env scope ident props = Inl NetworkingPropsOutsideAwsVpc)
     = (isEc2Compatible env (compatibility (taskDefinition props))
        \<and> defaultContainer (taskDefinition props) \<noteq> None
        \<and> \<not> isl (BaseRunTask_constructor env scope ident props)
        \<and> networkMode (taskDefinition props) \<noteq> AwsVpc
        \<and> (vpcPlacement props \<noteq> None \<or> securityGroup props \<noteq> None))"
    by (cases "BaseRunTask_constructor env scope ident props")
       (auto simp: Ec2RunTask_constructor_def Let_def validateNoNetworkingProps_def supplied_def
          rethrow_def split: if_splits sum.splits prod.splits option.splits)
  have 2: "isl (Ec2RunTask_constructor env scope ident props)"
    if "networkMode (taskDefinition props) \<noteq> AwsVpc"
       "vpcPlacement props \<noteq> None \<or> securityGroup props \<noteq> None"
    using that
    by (cases "BaseRunTask_constructor env scope ident props")
       (auto simp: Ec2RunTask_constructor_def Let_def validateNoNetworkingProps_def supplied_def
          rethrow_def split: if_splits sum.splits prod.splits option.splits)
  have 3: "\<not> isl (Ec2RunTask_constructor env scope ident props)"
    if "networkMode (taskDefinition props) = AwsVpc"
       "isEc2Compatible env (compatibility (taskDefinition props))"
       "defaultContainer (taskDefinition props) \<noteq> None"
       "BaseRunTask_constructor env scope ident props = Inr (ps, b)"
       "\<not> isl (configureAwsVpcNetworking env (vpc (props_cluster props)) False
                    (vpcPlacement props) (securityGroup props) b)"
    using that
    by (auto simp: Ec2RunTask_constructor_def Let_def supplied_def
          rethrow_def split: if_splits sum.splits prod.splits option.splits)
  from 1 2 3 show ?thesis by blast
qed

theorem networking_props_need_AwsVpc_witness:
  "networkMode (taskDefinition (sample_props_networking Host)) \<noteq> AwsVpc
   \<and> securityGroup (sample_props_networking Host) \<noteq> None
   \<and> Ec2RunTask_constructor sample_env ''Stack'' ''RunEc2'' (sample_props_networking Host)
       = Inl NetworkingPropsOutsideAwsVpc
   \<and> networkMode (taskDefinition (sample_props_networking AwsVpc)) = AwsVpc
   \<and> securityGroup (sample_props_networking AwsVpc) \<noteq> None
   \<and> \<not> isl (Ec2RunTask_constructor sample_env ''Stack'' ''RunEc2''
              (sample_props_networking AwsVpc))"
proof -
  have f: "isEc2Compatible sample_env (compatibility (taskDefinition (sample_props_networking m)))"
    "defaultContainer (taskDefinition (sample_props_networking m)) \<noteq> None"
    "BaseRunTask_constructor sample_env ''Stack'' ''RunEc2'' (sample_props_networking m)
       = Inr (Map.empty, ())"
    "networkMode (taskDefinition (sample_props_networking m)) = m"
    "vpcPlacement (sample_props_networking m) \<noteq> None"
    "securityGroup (sample_props_networking m) \<noteq> None"
    "\<not> isl (configureAwsVpcNetworking sample_env v a p g ())"
    for m v a p g
    by (simp_all add: sample_props_networking_def sample_props_def sample_taskdef_def
          sample_env_def)
  show ?thesis
    using networking_props_need_AwsVpc
            [of sample_env "''Stack''" "''RunEc2''" "sample_props_networking Host" Map.empty "()"]
          networking_props_need_AwsVpc
            [of sample_env "''Stack''" "''RunEc2''" "sample_props_networking AwsVpc" Map.empty "()"]
    by (simp add: f)
qed

text \<open>
  C8. The claim: the two arrays are append-only, and the deferred values read them at
  resolution, so that calls made after construction show in the resolved result in call
  order. The arrays are append-only (\<open>apply_calls_prefix_constraints\<close>,
  \<open>apply_calls_prefix_strategies\<close>) and the resolvers do run on the final arrays
  (\<open>resolved_after_calls\<close>), which settles \<^verbatim>\<open>PlacementConstraints\<close>. For
  \<^verbatim>\<open>PlacementStrategy\<close> the resolver tests the length of the constraints: on the sample
  task constructed without constraint, \<^verbatim>\<open>placeRandomly()\<close> and
  \<^verbatim>\<open>placePackedBy('memory')\<close> leave two strategies in the array and
  \<^verbatim>\<open>PlacementStrategy\<close> resolves to \<^verbatim>\<open>undefined\<close>.
\<close>

theorem strategy_calls_lost_without_constraints:
  "Ec2RunTask_constructor sample_env ''Stack'' ''RunEc2'' (sample_props Bridge None)
     = Inr (sample_task None)
   \<and> strategies (apply_calls [PlaceRandomly, PlacePackedBy ''memory''] (sample_task None))
       = [Random, Binpack ''memory'']
   \<and> fst (resolveParameter ''PlacementStrategy''
            (apply_calls [PlaceRandomly, PlacePackedBy ''memory''] (sample_task None)))
       = Undefined"
proof -
  have h: "Ec2RunTask_constructor sample_env ''Stack'' ''RunEc2'' (sample_props Bridge None)
     = Inr (sample_task None)" by (rule sample_constructed)
  have c: "constraints (apply_calls [PlaceRandomly, PlacePackedBy ''memory''] (sample_task None))
             = []"
    and s: "strategies (apply_calls [PlaceRandomly, PlacePackedBy ''memory''] (sample_task None))
             = [Random, Binpack ''memory'']"
    by (simp_all add: placeRandomly_def placePackedBy_def sample_task_def)
  from resolved_after_calls(2)
         [OF h, of "[PlaceRandomly, PlacePackedBy ''memory'']"] c s h
  show ?thesis by simp
qed

text \<open>
  C9. A deferred value created by \<^verbatim>\<open>new cdk.Token(f)\<close> invokes \<open>f\<close> once, at its
  first resolution, and returns the result of \<open>f\<close>; resolving any deferred value again,
  against whatever arrays, returns the value of the first resolution and leaves the cell
  (its count of invocations too) as it is. For the \<^verbatim>\<open>PlacementConstraints\<close> and
  \<^verbatim>\<open>PlacementStrategy\<close> entries of a constructed task: the resolver has not run
  before the first resolution, has run once after it, and after further placement calls
  and a second resolution the value is the one of the first resolution and the resolver
  has still run once.
\<close>

theorem deferred_value_resolved_once:
  assumes "Ec2RunTask_constructor env scope ident props = Inr t"
      and "key = ''PlacementConstraints'' \<or> key = ''PlacementStrategy''"
  shows "fst (resolve (Token f) cs ss) = f cs ss
       \<and> invocations (snd (resolve (Token f) cs ss)) = 1
       \<and> resolve (snd (resolve d cs ss)) cs' ss' = (fst (resolve d cs ss), snd (resolve d cs ss))
       \<and> resolver_calls key (apply_calls calls t) = 0
       \<and> resolver_calls key (snd (resolveParameter key (apply_calls calls t))) = 1
       \<and> fst (resolveParameter key
                (apply_calls calls' (snd (resolveParameter key (apply_calls calls t)))))
           = fst (resolveParameter key (apply_calls calls t))
       \<and> resolver_calls key
            (snd (resolveParameter key
                   (apply_calls calls' (snd (resolveParameter key (apply_calls calls t))))))
           = 1"
proof -
  let ?u = "apply_calls calls t"
  obtain g where g: "parameters ?u key = Some (Deferred (Token g))"
    using constructor_Inr(5,6) [OF assms(1)] assms(2) by (auto simp: apply_calls_frame)
  have 0: "resolver_calls key ?u = 0"
    by (simp add: resolver_calls_def g Token_def)
  have 1: "resolver_calls key (snd (resolveParameter key ?u)) = 1"
    by (simp add: resolver_calls_def resolveParameter_Deferred [OF g] resolve_Token)
  have 2: "resolver_calls key
            (snd (resolveParameter key (apply_calls calls' (snd (resolveParameter key ?u))))) = 1"
    using 1 by (simp add: resolver_calls_def resolveParameter_again(2))
  from 0 1 2 show ?thesis
    by (simp add: resolve_Token resolve_again resolveParameter_again(1))
qed

theorem deferred_value_resolved_once_witness:
  "Ec2RunTask_constructor sample_env ''Stack'' ''RunEc2'' (sample_props Bridge None)
     = Inr (sample_task None)
   \<and> fst (resolveParameter ''PlacementConstraints''
            (apply_calls [PlaceOnMemberOf [''a'']] (sample_task None)))
       = ConstraintList [MemberOf ''a'']
   \<and> fst (resolveParameter ''PlacementConstraints''
            (apply_calls [PlaceOnMemberOf [''b'']]
               (snd (resolveParameter ''PlacementConstraints''
                  (apply_calls [PlaceOnMemberOf [''a'']] (sample_task None))))))
       = ConstraintList [MemberOf ''a'']
   \<and> resolver_calls ''PlacementConstraints''
         (snd (resolveParameter ''PlacementConstraints''
            (apply_calls [PlaceOnMemberOf [''b'']]
               (snd (resolveParameter ''PlacementConstraints''
                  (apply_calls [PlaceOnMemberOf [''a'']] (sample_task None)))))))
       = 1"
proof -
  have h: "Ec2RunTask_constructor sample_env ''Stack'' ''RunEc2'' (sample_props Bridge None)
     = Inr (sample_task None)" by (rule sample_constructed)
  have k: "''PlacementConstraints'' = ''PlacementConstraints''
           \<or> ''PlacementConstraints'' = ''PlacementStrategy''" by simp
  have c: "constraints (apply_calls [PlaceOnMemberOf [''a'']] (sample_task None))
             = [MemberOf ''a'']"
    by (simp add: sample_task_def)
  have r: "fst (resolveParameter ''PlacementConstraints''
            (apply_calls [PlaceOnMemberOf [''a'']] (sample_task None)))
       = ConstraintList [MemberOf ''a'']"
    using resolved_after_calls(1) [OF h, of "[PlaceOnMemberOf [''a'']]"] c
    by simp
  show ?thesis
    using deferred_value_resolved_once
            [OF h k, of _ _ _ _ _ _ "[PlaceOnMemberOf [''a'']]" "[PlaceOnMemberOf [''b'']]"] h r
    by simp
qed

text \<open>
  C10. A constructed task has the plain string \<^verbatim>\<open>'EC2'\<close> as its \<^verbatim>\<open>LaunchType\<close>
  parameter, whatever the properties; it is still there after any sequence of placement
  calls, it resolves to \<^verbatim>\<open>'EC2'\<close>, and the resolution of any parameter leaves it
  unchanged.
\<close>

theorem LaunchType_is_EC2:
  assumes "Ec2RunTask_constructor env scope ident props = Inr t"
  shows "parameters t ''LaunchType'' = Some (Plain (Str ''EC2''))
       \<and> parameters (apply_calls calls t) ''LaunchType'' = Some (Plain (Str ''EC2''))
       \<and> fst (resolveParameter ''LaunchType'' (apply_calls calls t)) = Str ''EC2''
       \<and> parameters (snd (resolveParameter key (apply_calls calls t))) ''LaunchType''
           = Some (Plain (Str ''EC2''))"
proof -
  note c = constructor_Inr(4) [OF assms]
  have a: "parameters (apply_calls calls t) ''LaunchType'' = Some (Plain (Str ''EC2''))"
    using c by (simp add: apply_calls_frame)
  have b: "parameters (snd (resolveParameter key (apply_calls calls t))) ''LaunchType''
           = Some (Plain (Str ''EC2''))"
  proof (cases "key = ''LaunchType''")
    case True
    with a show ?thesis by (simp add: resolveParameter_Plain)
  next
    case False
    then have "''LaunchType'' \<noteq> key" by blast
    with a show ?thesis by (simp add: resolveParameter_other)
  qed
  from a b c show ?thesis by (simp add: resolveParameter_Plain)
qed

theorem LaunchType_is_EC2_witness:
  "Ec2RunTask_constructor sample_env ''Stack'' ''RunEc2'' (sample_props AwsVpc (Some True))
     = Inr (sample_task (Some True))
   \<and> parameters
        (apply_calls [PlaceOnMemberOf [''a''], PlaceSpreadAcross [], PlacePackedBy ''cpu'',
                      PlaceRandomly] (sample_task (Some True))) ''LaunchType''
       = Some (Plain (Str ''EC2''))
   \<and> fst (resolveParameter ''LaunchType''
        (apply_calls [PlaceOnMemberOf [''a''], PlaceSpreadAcross [], PlacePackedBy ''cpu'',
                      PlaceRandomly] (sample_task (Some True)))) = Str ''EC2''"
proof -
  have h: "Ec2RunTask_constructor sample_env ''Stack'' ''RunEc2''
             (sample_props AwsVpc (Some True)) = Inr (sample_task (Some True))"
    by (rule sample_constructed)
  show ?thesis
    using LaunchType_is_EC2 [OF h, of "[PlaceOnMemberOf [''a''], PlaceSpreadAcross [], PlacePackedBy ''cpu'',
                      PlaceRandomly]"] h
    by (simp del: apply_calls.simps)
qed

end
